theory Spec2Isabelle
  imports Complex_Main
begin

section \<open>The cloud CodeChunker of chonkie: a shallow embedding\<close>

text \<open>
  The source is \<^verbatim>\<open>src/chonkie/cloud/chunker/code.py\<close>: a class \<^verbatim>\<open>CodeChunker\<close> with a
  constructor, a method \<^verbatim>\<open>chunk\<close> and \<^verbatim>\<open>__call__\<close>. The constructor reads the process
  environment and sends one GET; \<^verbatim>\<open>chunk\<close> sends one POST and maps the decoded JSON body
  to \<^verbatim>\<open>CodeChunk\<close> objects. Every effect is explicit here: the outside world is a record
  holding the environment, the log of the requests sent so far and the service's answers,
  and each operation returns the world it leaves behind.
\<close>

subsection \<open>Python values and exceptions\<close>

text \<open>
  What \<^verbatim>\<open>response.json()\<close> can return, and what the payload is built from. A \<open>PyDict\<close>
  holds the items of the dict in insertion order. A \<open>PyStr\<close> is the list of its characters.
\<close>

datatype pyval =
    PyNone
  | PyBool bool
  | PyInt int
  | PyFloat real
  | PyStr string
  | PyList "pyval list"
  | PyDict "(string \<times> pyval) list"

text \<open>
  An exception object (an instance of a subclass of \<^verbatim>\<open>Exception\<close>): the name of its class,
  \<^verbatim>\<open>str(error)\<close>, and \<^verbatim>\<open>__cause__\<close> as set by \<^verbatim>\<open>raise ... from error\<close>.
\<close>

datatype pyexn = Exn (exn_class: string) (exn_str: string) (exn_cause: "pyexn option")

definition ValueError :: "string \<Rightarrow> pyexn" where
  "ValueError msg = Exn ''ValueError'' msg None"

definition TypeError :: "string \<Rightarrow> pyexn" where
  "TypeError msg = Exn ''TypeError'' msg None"

text \<open>\<^verbatim>\<open>raise ValueError(msg) from error\<close>\<close>

definition ValueError_from :: "string \<Rightarrow> pyexn \<Rightarrow> pyexn" where
  "ValueError_from msg error = Exn ''ValueError'' msg (Some error)"

text \<open>\<^verbatim>\<open>type(v).__name__\<close>\<close>

fun type_name :: "pyval \<Rightarrow> string" where
  "type_name PyNone = ''NoneType''"
| "type_name (PyBool _) = ''bool''"
| "type_name (PyInt _) = ''int''"
| "type_name (PyFloat _) = ''float''"
| "type_name (PyStr _) = ''str''"
| "type_name (PyList _) = ''list''"
| "type_name (PyDict _) = ''dict''"

text \<open>
  What a \<^verbatim>\<open>for\<close> loop or a comprehension iterates over: the elements of a list, the keys
  of a dict, the characters of a string; any other value raises \<^verbatim>\<open>TypeError\<close>.
\<close>

fun py_iter :: "pyval \<Rightarrow> pyexn + pyval list" where
  "py_iter (PyList xs) = Inr xs"
| "py_iter (PyDict kvs) = Inr (map (\<lambda>kv. PyStr (fst kv)) kvs)"
| "py_iter (PyStr s) = Inr (map (\<lambda>c. PyStr [c]) s)"
| "py_iter v =
     Inl (TypeError ([CHR 0x27] @ type_name v @ [CHR 0x27] @ '' object is not iterable''))"

text \<open>\<^verbatim>\<open>str(n)\<close> of an integer, as an f-string formats \<^verbatim>\<open>response.status_code\<close>.\<close>

definition digit_char :: "nat \<Rightarrow> char" where
  "digit_char d = char_of (48 + d)"

function str_nat :: "nat \<Rightarrow> string" where
  "str_nat n = (if n < 10 then [digit_char n] else str_nat (n div 10) @ [digit_char (n mod 10)])"
  by pat_completeness auto
termination
  by (relation "measure (\<lambda>n. n)") auto

declare str_nat.simps [simp del]

definition str_int :: "int \<Rightarrow> string" where
  "str_int i = (if i < 0 then ''-'' @ str_nat (nat (- i)) else str_nat (nat i))"

text \<open>Truthiness of an \<^verbatim>\<open>Optional[str]\<close>, and Python's \<^verbatim>\<open>a or b\<close> on such values.\<close>

fun truthy :: "string option \<Rightarrow> bool" where
  "truthy None = False"
| "truthy (Some s) = (s \<noteq> [])"

definition py_or :: "string option \<Rightarrow> string option \<Rightarrow> string option" where
  "py_or a b = (if truthy a then a else b)"

subsection \<open>The outside world\<close>

record response =
  status_code :: int
  text' :: string
  json :: "pyexn + pyval"

datatype http_request =
    GET string
  | POST string "(string \<times> pyval) list" "(string \<times> string) list"

text \<open>
  \<open>environ\<close> is \<^verbatim>\<open>os.environ\<close>; \<open>sent\<close> is every request issued so far, oldest first;
  \<open>server\<close> gives the outcome of a request from the requests before it: a response, or the
  exception that \<^verbatim>\<open>requests.get\<close> or \<^verbatim>\<open>requests.post\<close> raises.
\<close>

record world =
  environ :: "string \<Rightarrow> string option"
  sent :: "http_request list"
  server :: "http_request list \<Rightarrow> http_request \<Rightarrow> pyexn + response"

definition getenv :: "world \<Rightarrow> string \<Rightarrow> string option" where
  "getenv w name = environ w name"

definition send :: "world \<Rightarrow> http_request \<Rightarrow> world \<times> (pyexn + response)" where
  "send w req = (w\<lparr>sent := sent w @ [req]\<rparr>, server w (sent w) req)"

definition requests_get :: "world \<Rightarrow> string \<Rightarrow> world \<times> (pyexn + response)" where
  "requests_get w url = send w (GET url)"

definition requests_post ::
  "world \<Rightarrow> string \<Rightarrow> (string \<times> pyval) list \<Rightarrow> (string \<times> string) list \<Rightarrow>
   world \<times> (pyexn + response)" where
  "requests_post w url payload headers = send w (POST url payload headers)"

subsection \<open>The class\<close>

definition BASE_URL :: string where
  "BASE_URL = ''https://api.chonkie.ai''"

definition VERSION :: string where
  "VERSION = ''v1''"

record CodeChunker =
  api_key :: string
  tokenizer_or_token_counter :: string
  chunk_size :: int
  language :: string

definition no_api_key_msg :: string where
  "no_api_key_msg =
     ''No API key provided. Please set the CHONKIE_API_KEY environment variable''
     @ '' or pass an API key to the CodeChunker constructor.''"

definition chunk_size_msg :: string where
  "chunk_size_msg = ''Chunk size must be greater than 0.''"

definition down_msg :: string where
  "down_msg =
     ''Oh no! You caught Chonkie at a bad time. It seems to be down right now.''
     @ '' Please try again in a short while.''
     @ '' If the issue persists, please contact support at support@chonkie.ai or raise an issue on GitHub.''"

text \<open>
  \<^verbatim>\<open>__init__\<close>. The result is the world after the call and either the exception raised
  or the constructed object.
\<close>

definition init ::
  "world \<Rightarrow> string \<Rightarrow> int \<Rightarrow> string \<Rightarrow> string option \<Rightarrow> world \<times> (pyexn + CodeChunker)" where
  "init w tokenizer_or_token_counter' chunk_size' language' api_key' =
     (case py_or api_key' (getenv w ''CHONKIE_API_KEY'') of
        None \<Rightarrow> (w, Inl (ValueError no_api_key_msg))
      | Some key \<Rightarrow>
          if key = [] then (w, Inl (ValueError no_api_key_msg))
          else if chunk_size' \<le> 0 then (w, Inl (ValueError chunk_size_msg))
          else
            (case requests_get w (BASE_URL @ ''/'') of
               (w', Inl e) \<Rightarrow> (w', Inl e)
             | (w', Inr response) \<Rightarrow>
                 if status_code response \<noteq> 200 then (w', Inl (ValueError down_msg))
                 else
                   (w', Inr \<lparr>api_key = key,
                             tokenizer_or_token_counter = tokenizer_or_token_counter',
                             chunk_size = chunk_size',
                             language = language'\<rparr>)))"

text \<open>The argument of \<^verbatim>\<open>chunk\<close>: a \<^verbatim>\<open>str\<close> or a \<^verbatim>\<open>List[str]\<close>.\<close>

datatype text_input = Str string | StrList "string list"

fun text_value :: "text_input \<Rightarrow> pyval" where
  "text_value (Str s) = PyStr s"
| "text_value (StrList ss) = PyList (map PyStr ss)"

text \<open>What \<^verbatim>\<open>chunk\<close> returns: a list of chunks, or a list of lists of chunks.\<close>

datatype 'c chunks = Flat "'c list" | Nested "'c list list"

text \<open>The dict literal \<^verbatim>\<open>payload\<close>, its items in the order they are written.\<close>

definition payload :: "CodeChunker \<Rightarrow> text_input \<Rightarrow> (string \<times> pyval) list" where
  "payload self txt =
     [(''text'', text_value txt),
      (''tokenizer_or_token_counter'', PyStr (tokenizer_or_token_counter self)),
      (''chunk_size'', PyInt (chunk_size self)),
      (''language'', PyStr (language self)),
      (''lang'', PyStr (language self)),
      (''include_nodes'', PyBool False)]"

definition chunk_url :: string where
  "chunk_url = BASE_URL @ ''/'' @ VERSION @ ''/chunk/code''"

definition headers :: "CodeChunker \<Rightarrow> (string \<times> string) list" where
  "headers self = [(''Authorization'', ''Bearer '' @ api_key self)]"

text \<open>
  The loops over the decoded body. \<open>from_dict\<close> is \<^verbatim>\<open>CodeChunk.from_dict\<close>, which lives in
  \<^verbatim>\<open>chonkie.types\<close> and is a parameter here: it returns a chunk or raises.
  \<open>chunk_loop\<close> is the inner loop with \<^verbatim>\<open>curr_chunks.append\<close> (and the comprehension of the
  single-text branch), \<open>batch_loop\<close> the outer loop with \<^verbatim>\<open>batch_chunks.append\<close>. Both stop
  at the first exception.
\<close>

fun chunk_loop :: "(pyval \<Rightarrow> pyexn + 'c) \<Rightarrow> 'c list \<Rightarrow> pyval list \<Rightarrow> pyexn + 'c list" where
  "chunk_loop from_dict curr_chunks [] = Inr curr_chunks"
| "chunk_loop from_dict curr_chunks (c # rest) =
     (case from_dict c of
        Inl e \<Rightarrow> Inl e
      | Inr ch \<Rightarrow> chunk_loop from_dict (curr_chunks @ [ch]) rest)"

fun batch_loop ::
  "(pyval \<Rightarrow> pyexn + 'c) \<Rightarrow> 'c list list \<Rightarrow> pyval list \<Rightarrow> pyexn + 'c list list" where
  "batch_loop from_dict batch_chunks [] = Inr batch_chunks"
| "batch_loop from_dict batch_chunks (chunk_list # rest) =
     (case py_iter chunk_list of
        Inl e \<Rightarrow> Inl e
      | Inr cs \<Rightarrow>
          (case chunk_loop from_dict [] cs of
             Inl e \<Rightarrow> Inl e
           | Inr curr_chunks \<Rightarrow> batch_loop from_dict (batch_chunks @ [curr_chunks]) rest))"

text \<open>The body of the \<^verbatim>\<open>try\<close> block.\<close>

definition parse_response ::
  "(pyval \<Rightarrow> pyexn + 'c) \<Rightarrow> text_input \<Rightarrow> response \<Rightarrow> pyexn + 'c chunks" where
  "parse_response from_dict txt response =
     (case txt of
        StrList _ \<Rightarrow>
          (case json response of
             Inl e \<Rightarrow> Inl e
           | Inr batch_result \<Rightarrow>
               (case py_iter batch_result of
                  Inl e \<Rightarrow> Inl e
                | Inr rows \<Rightarrow>
                    (case batch_loop from_dict [] rows of
                       Inl e \<Rightarrow> Inl e
                     | Inr batch_chunks \<Rightarrow> Inr (Nested batch_chunks))))
      | Str _ \<Rightarrow>
          (case json response of
             Inl e \<Rightarrow> Inl e
           | Inr single_result \<Rightarrow>
               (case py_iter single_result of
                  Inl e \<Rightarrow> Inl e
                | Inr cs \<Rightarrow>
                    (case chunk_loop from_dict [] cs of
                       Inl e \<Rightarrow> Inl e
                     | Inr single_chunks \<Rightarrow> Inr (Flat single_chunks)))))"

text \<open>
  The two exceptions that \<^verbatim>\<open>chunk\<close> raises itself: for a status other than 200, and,
  in the \<^verbatim>\<open>except\<close> clause, for whatever the \<^verbatim>\<open>try\<close> block raised (\<^verbatim>\<open>from error\<close>).
\<close>

definition api_error :: "response \<Rightarrow> pyexn" where
  "api_error response =
     ValueError (''Error from the Chonkie API: '' @ str_int (status_code response)
                 @ '' '' @ text' response)"

definition parse_error :: "pyexn \<Rightarrow> pyexn" where
  "parse_error error = ValueError_from (''Error parsing the response: '' @ exn_str error) error"

text \<open>
  \<^verbatim>\<open>chunk\<close>. The result is the object after the call, the world after the call, and
  either the exception raised or the value returned.
\<close>

definition chunk ::
  "(pyval \<Rightarrow> pyexn + 'c) \<Rightarrow> CodeChunker \<Rightarrow> world \<Rightarrow> text_input \<Rightarrow>
   CodeChunker \<times> world \<times> (pyexn + 'c chunks)" where
  "chunk from_dict self w txt =
     (case requests_post w chunk_url (payload self txt) (headers self) of
        (w', Inl e) \<Rightarrow> (self, w', Inl e)
      | (w', Inr response) \<Rightarrow>
          if status_code response \<noteq> 200 then
            (self, w', Inl (api_error response))
          else
            (case parse_response from_dict txt response of
               Inl error \<Rightarrow> (self, w', Inl (parse_error error))
             | Inr result \<Rightarrow> (self, w', Inr result)))"

text \<open>\<^verbatim>\<open>__call__\<close>\<close>

definition call ::
  "(pyval \<Rightarrow> pyexn + 'c) \<Rightarrow> CodeChunker \<Rightarrow> world \<Rightarrow> text_input \<Rightarrow>
   CodeChunker \<times> world \<times> (pyexn + 'c chunks)" where
  "call from_dict self w txt = chunk from_dict self w txt"

subsection \<open>Concrete scenarios\<close>

text \<open>
  Worlds for the examples below: an environment without the variable or with it, a service
  whose root answers with a given status and whose chunk endpoint gives a given response.
\<close>

definition env_none :: "string \<Rightarrow> string option" where
  "env_none name = None"

definition env_key :: "string \<Rightarrow> string \<Rightarrow> string option" where
  "env_key k name = (if name = ''CHONKIE_API_KEY'' then Some k else None)"

definition mock_world :: "(string \<Rightarrow> string option) \<Rightarrow> int \<Rightarrow> response \<Rightarrow> world" where
  "mock_world env probe_status post_response =
     \<lparr>environ = env, sent = [],
      server = (\<lambda>hist req. case req of
                  GET _ \<Rightarrow> Inr \<lparr>status_code = probe_status, text' = [], json = Inr PyNone\<rparr>
                | POST _ _ _ \<Rightarrow> Inr post_response)\<rparr>"

text \<open>
  A stand-in for \<^verbatim>\<open>CodeChunk.from_dict\<close>, used in the examples only: a chunk is a text with
  a token count, read from a dict with a string under \<^verbatim>\<open>text\<close> and an integer under
  \<^verbatim>\<open>token_count\<close>; anything else raises.
\<close>

definition sample_from_dict :: "pyval \<Rightarrow> pyexn + (string \<times> int)" where
  "sample_from_dict v =
     (case v of
        PyDict kvs \<Rightarrow>
          (case (map_of kvs ''text'', map_of kvs ''token_count'') of
             (Some (PyStr t), Some (PyInt n)) \<Rightarrow> Inr (t, n)
           | (None, _) \<Rightarrow> Inl (Exn ''KeyError'' ([CHR 0x27] @ ''text'' @ [CHR 0x27]) None)
           | (_, None) \<Rightarrow> Inl (Exn ''KeyError'' ([CHR 0x27] @ ''token_count'' @ [CHR 0x27]) None)
           | _ \<Rightarrow> Inl (TypeError ''bad field type''))
      | _ \<Rightarrow> Inl (TypeError ''chunk is not a dict''))"

definition sample_chunk :: "string \<Rightarrow> int \<Rightarrow> pyval" where
  "sample_chunk t n = PyDict [(''text'', PyStr t), (''token_count'', PyInt n)]"

definition sample_client :: CodeChunker where
  "sample_client =
     \<lparr>api_key = ''secret'', tokenizer_or_token_counter = ''gpt2'',
      chunk_size = 512, language = ''python''\<rparr>"

section \<open>Properties\<close>

subsection \<open>What a call of chunk leaves behind\<close>

lemma chunk_world:
  "fst (snd (chunk from_dict self w txt)) =
     w\<lparr>sent := sent w @ [POST chunk_url (payload self txt) (headers self)]\<rparr>"
  by (simp add: chunk_def requests_post_def send_def split: sum.splits)

lemma chunk_self: "fst (chunk from_dict self w txt) = self"
  by (simp add: chunk_def requests_post_def send_def split: sum.splits)

subsection \<open>The request that chunk sends\<close>

text \<open>
  C2. Every call of \<^verbatim>\<open>chunk\<close>, whatever its outcome, adds exactly one request to those sent:
  a POST to \<^verbatim>\<open>https://api.chonkie.ai/v1/chunk/code\<close> whose JSON payload has exactly the six
  keys \<^verbatim>\<open>text\<close>, \<^verbatim>\<open>tokenizer_or_token_counter\<close>, \<^verbatim>\<open>chunk_size\<close>, \<^verbatim>\<open>language\<close>, \<^verbatim>\<open>lang\<close>
  and \<^verbatim>\<open>include_nodes\<close>, in which \<^verbatim>\<open>language\<close> and \<^verbatim>\<open>lang\<close> both carry the configured
  language and \<^verbatim>\<open>include_nodes\<close> is \<^verbatim>\<open>False\<close> for every configuration.
\<close>

theorem chunk_payload_exact:
  "sent (fst (snd (chunk from_dict self w txt))) =
     sent w @
     [POST ''https://api.chonkie.ai/v1/chunk/code''
        [(''text'', text_value txt),
         (''tokenizer_or_token_counter'', PyStr (tokenizer_or_token_counter self)),
         (''chunk_size'', PyInt (chunk_size self)),
         (''language'', PyStr (language self)),
         (''lang'', PyStr (language self)),
         (''include_nodes'', PyBool False)]
        [(''Authorization'', ''Bearer '' @ api_key self)]]"
  by (simp add: chunk_world chunk_url_def BASE_URL_def VERSION_def payload_def headers_def)

subsection \<open>Calling the object\<close>

text \<open>
  C8. Calling the client as a function (\<^verbatim>\<open>__call__\<close>) gives, for every client, world and
  input, the same object, the same world and the same result or exception as \<^verbatim>\<open>chunk\<close>.
\<close>

theorem call_is_chunk: "call from_dict self w txt = chunk from_dict self w txt"
  by (simp add: call_def)

subsection \<open>The client after a call\<close>

text \<open>
  C9. A call of \<^verbatim>\<open>chunk\<close>, whether it returns or raises, leaves the client as it was: its
  \<^verbatim>\<open>api_key\<close>, \<^verbatim>\<open>tokenizer_or_token_counter\<close>, \<^verbatim>\<open>chunk_size\<close> and \<^verbatim>\<open>language\<close> are
  unchanged. The client can therefore be used again: a second call on the client and world
  left by the first sends the same request once more.
\<close>

theorem chunk_keeps_config:
  "fst (chunk from_dict self w txt) = self
   \<and> api_key (fst (chunk from_dict self w txt)) = api_key self
   \<and> tokenizer_or_token_counter (fst (chunk from_dict self w txt))
       = tokenizer_or_token_counter self
   \<and> chunk_size (fst (chunk from_dict self w txt)) = chunk_size self
   \<and> language (fst (chunk from_dict self w txt)) = language self
   \<and> sent (fst (snd (chunk from_dict (fst (chunk from_dict self w txt))
                       (fst (snd (chunk from_dict self w txt))) txt')))
       = sent w @ [POST chunk_url (payload self txt) (headers self),
                   POST chunk_url (payload self txt') (headers self)]"
  by (simp add: chunk_self chunk_world)

subsection \<open>Construction\<close>

lemma init_missing_key:
  "\<not> truthy arg \<Longrightarrow> \<not> truthy (environ w ''CHONKIE_API_KEY'') \<Longrightarrow>
   init w tok cs lang arg = (w, Inl (ValueError no_api_key_msg))"
  by (cases "environ w ''CHONKIE_API_KEY''")
     (auto simp: init_def py_or_def getenv_def split: option.splits)

lemma init_bad_chunk_size:
  "py_or arg (environ w ''CHONKIE_API_KEY'') = Some k \<Longrightarrow> k \<noteq> [] \<Longrightarrow> cs \<le> 0 \<Longrightarrow>
   init w tok cs lang arg = (w, Inl (ValueError chunk_size_msg))"
  by (simp add: init_def getenv_def)

lemma init_probe:
  "py_or arg (environ w ''CHONKIE_API_KEY'') = Some k \<Longrightarrow> k \<noteq> [] \<Longrightarrow> 0 < cs \<Longrightarrow>
   init w tok cs lang arg =
     (w\<lparr>sent := sent w @ [GET (BASE_URL @ ''/'')]\<rparr>,
      case server w (sent w) (GET (BASE_URL @ ''/'')) of
        Inl e \<Rightarrow> Inl e
      | Inr r \<Rightarrow>
          if status_code r \<noteq> 200 then Inl (ValueError down_msg)
          else Inr \<lparr>api_key = k, tokenizer_or_token_counter = tok,
                    chunk_size = cs, language = lang\<rparr>)"
  by (simp add: init_def getenv_def requests_get_def send_def split: sum.splits)

lemma py_or_resolves:
  "(arg = Some k \<or> (arg = None \<or> arg = Some []) \<and> env = Some k) \<and> k \<noteq> [] \<Longrightarrow>
   py_or arg env = Some k"
  by (auto simp: py_or_def)

lemma py_or_missing:
  "(arg = None \<or> arg = Some []) \<and> (env = None \<or> env = Some []) \<Longrightarrow>
   \<not> truthy arg \<and> \<not> truthy env"
  by auto

text \<open>
  C3. With an API key present (passed as a non-empty argument, or else found non-empty in
  \<^verbatim>\<open>CHONKIE_API_KEY\<close>), construction with a chunk size of zero or less raises
  \<^verbatim>\<open>ValueError("Chunk size must be greater than 0.")\<close>, the source's form of the
  configuration error for an invalid chunk size, and sends nothing. With a chunk size above
  zero the check passes: construction goes on to the probe of the service root, whose
  outcome alone decides the result.
\<close>

theorem init_chunk_size_check:
  "(cs \<le> 0 \<and>
    (arg = Some k \<or> (arg = None \<or> arg = Some []) \<and> environ w ''CHONKIE_API_KEY'' = Some k)
    \<and> k \<noteq> [] \<longrightarrow>
      init w tok cs lang arg = (w, Inl (ValueError ''Chunk size must be greater than 0.'')))
   \<and> (0 < cs \<and>
    (arg = Some k \<or> (arg = None \<or> arg = Some []) \<and> environ w ''CHONKIE_API_KEY'' = Some k)
    \<and> k \<noteq> [] \<longrightarrow>
      sent (fst (init w tok cs lang arg)) = sent w @ [GET ''https://api.chonkie.ai/'']
      \<and> snd (init w tok cs lang arg) =
          (case server w (sent w) (GET ''https://api.chonkie.ai/'') of
             Inl e \<Rightarrow> Inl e
           | Inr r \<Rightarrow>
               if status_code r \<noteq> 200 then Inl (ValueError down_msg)
               else Inr \<lparr>api_key = k, tokenizer_or_token_counter = tok,
                         chunk_size = cs, language = lang\<rparr>))"
proof (intro conjI impI)
  assume h: "cs \<le> 0 \<and>
    (arg = Some k \<or> (arg = None \<or> arg = Some []) \<and> environ w ''CHONKIE_API_KEY'' = Some k)
    \<and> k \<noteq> []"
  then have "py_or arg (environ w ''CHONKIE_API_KEY'') = Some k"
    by (intro py_or_resolves) simp
  with h show "init w tok cs lang arg = (w, Inl (ValueError ''Chunk size must be greater than 0.''))"
    using init_bad_chunk_size [of arg w k cs tok lang] by (simp add: chunk_size_msg_def)
next
  assume h: "0 < cs \<and>
    (arg = Some k \<or> (arg = None \<or> arg = Some []) \<and> environ w ''CHONKIE_API_KEY'' = Some k)
    \<and> k \<noteq> []"
  then have key: "py_or arg (environ w ''CHONKIE_API_KEY'') = Some k"
    by (intro py_or_resolves) simp
  from h key show "sent (fst (init w tok cs lang arg)) = sent w @ [GET ''https://api.chonkie.ai/'']"
    using init_probe [of arg w k cs tok lang] by (simp add: BASE_URL_def)
  from h key show "snd (init w tok cs lang arg) =
          (case server w (sent w) (GET ''https://api.chonkie.ai/'') of
             Inl e \<Rightarrow> Inl e
           | Inr r \<Rightarrow>
               if status_code r \<noteq> 200 then Inl (ValueError down_msg)
               else Inr \<lparr>api_key = k, tokenizer_or_token_counter = tok,
                         chunk_size = cs, language = lang\<rparr>)"
    using init_probe [of arg w k cs tok lang] by (simp add: BASE_URL_def)
qed

theorem init_chunk_size_check_witness:
  "init (mock_world env_none 200 \<lparr>status_code = 200, text' = [], json = Inr (PyList [])\<rparr>)
        ''gpt2'' 0 ''auto'' (Some ''secret'')
     = (mock_world env_none 200 \<lparr>status_code = 200, text' = [], json = Inr (PyList [])\<rparr>,
        Inl (ValueError ''Chunk size must be greater than 0.''))
   \<and> init (mock_world (env_key ''from-env'') 200 \<lparr>status_code = 200, text' = [], json = Inr (PyList [])\<rparr>)
        ''gpt2'' (- 5) ''auto'' None
     = (mock_world (env_key ''from-env'') 200 \<lparr>status_code = 200, text' = [], json = Inr (PyList [])\<rparr>,
        Inl (ValueError ''Chunk size must be greater than 0.''))
   \<and> snd (init (mock_world env_none 200 \<lparr>status_code = 200, text' = [], json = Inr (PyList [])\<rparr>)
        ''gpt2'' 1 ''auto'' (Some ''secret''))
     = Inr \<lparr>api_key = ''secret'', tokenizer_or_token_counter = ''gpt2'',
            chunk_size = 1, language = ''auto''\<rparr>"
  using init_chunk_size_check [of 0 "Some ''secret''" "''secret''"
          "mock_world env_none 200 \<lparr>status_code = 200, text' = [], json = Inr (PyList [])\<rparr>"
          "''gpt2''" "''auto''"]
        init_chunk_size_check [of "- 5" None "''from-env''"
          "mock_world (env_key ''from-env'') 200 \<lparr>status_code = 200, text' = [], json = Inr (PyList [])\<rparr>"
          "''gpt2''" "''auto''"]
        init_chunk_size_check [of 1 "Some ''secret''" "''secret''"
          "mock_world env_none 200 \<lparr>status_code = 200, text' = [], json = Inr (PyList [])\<rparr>"
          "''gpt2''" "''auto''"]
  by (simp add: mock_world_def env_none_def env_key_def)

text \<open>
  C4. The API key is the argument when one is passed and is not empty; otherwise it is the
  value of the environment variable \<^verbatim>\<open>CHONKIE_API_KEY\<close>; when neither gives a non-empty
  string, construction raises \<^verbatim>\<open>ValueError("No API key provided. ...")\<close>, the source's
  form of the configuration error for a missing key, whatever the other arguments are, and
  the world is left as it was. The first two parts are read off the constructed object,
  so they are stated for a valid chunk size and a probe answered with 200.
\<close>

theorem init_api_key_resolution:
  "(arg = Some a \<and> a \<noteq> [] \<and> 0 < cs
      \<and> server w (sent w) (GET ''https://api.chonkie.ai/'') = Inr r \<and> status_code r = 200 \<longrightarrow>
      snd (init w tok cs lang arg) =
        Inr \<lparr>api_key = a, tokenizer_or_token_counter = tok, chunk_size = cs, language = lang\<rparr>)
   \<and> ((arg = None \<or> arg = Some []) \<and> environ w ''CHONKIE_API_KEY'' = Some e \<and> e \<noteq> [] \<and> 0 < cs
      \<and> server w (sent w) (GET ''https://api.chonkie.ai/'') = Inr r \<and> status_code r = 200 \<longrightarrow>
      snd (init w tok cs lang arg) =
        Inr \<lparr>api_key = e, tokenizer_or_token_counter = tok, chunk_size = cs, language = lang\<rparr>)
   \<and> ((arg = None \<or> arg = Some [])
      \<and> (environ w ''CHONKIE_API_KEY'' = None \<or> environ w ''CHONKIE_API_KEY'' = Some []) \<longrightarrow>
      init w tok cs lang arg =
        (w, Inl (ValueError
          (''No API key provided. Please set the CHONKIE_API_KEY environment variable''
           @ '' or pass an API key to the CodeChunker constructor.''))))"
proof (intro conjI impI)
  assume h: "arg = Some a \<and> a \<noteq> [] \<and> 0 < cs
      \<and> server w (sent w) (GET ''https://api.chonkie.ai/'') = Inr r \<and> status_code r = 200"
  then have "py_or arg (environ w ''CHONKIE_API_KEY'') = Some a"
    by (intro py_or_resolves) simp
  with h show "snd (init w tok cs lang arg) =
        Inr \<lparr>api_key = a, tokenizer_or_token_counter = tok, chunk_size = cs, language = lang\<rparr>"
    using init_probe [of arg w a cs tok lang] by (simp add: BASE_URL_def)
next
  assume h: "(arg = None \<or> arg = Some []) \<and> environ w ''CHONKIE_API_KEY'' = Some e \<and> e \<noteq> []
      \<and> 0 < cs
      \<and> server w (sent w) (GET ''https://api.chonkie.ai/'') = Inr r \<and> status_code r = 200"
  then have "py_or arg (environ w ''CHONKIE_API_KEY'') = Some e"
    by (intro py_or_resolves) simp
  with h show "snd (init w tok cs lang arg) =
        Inr \<lparr>api_key = e, tokenizer_or_token_counter = tok, chunk_size = cs, language = lang\<rparr>"
    using init_probe [of arg w e cs tok lang] by (simp add: BASE_URL_def)
next
  assume h: "(arg = None \<or> arg = Some [])
      \<and> (environ w ''CHONKIE_API_KEY'' = None \<or> environ w ''CHONKIE_API_KEY'' = Some [])"
  then have "\<not> truthy arg \<and> \<not> truthy (environ w ''CHONKIE_API_KEY'')"
    by (rule py_or_missing)
  then show "init w tok cs lang arg =
        (w, Inl (ValueError
          (''No API key provided. Please set the CHONKIE_API_KEY environment variable''
           @ '' or pass an API key to the CodeChunker constructor.'')))"
    using init_missing_key [of arg w tok cs lang] by (simp add: no_api_key_msg_def)
qed

theorem init_api_key_resolution_witness:
  "snd (init (mock_world (env_key ''from-env'') 200 \<lparr>status_code = 200, text' = [], json = Inr (PyList [])\<rparr>)
        ''gpt2'' 512 ''auto'' (Some ''secret''))
     = Inr \<lparr>api_key = ''secret'', tokenizer_or_token_counter = ''gpt2'',
            chunk_size = 512, language = ''auto''\<rparr>
   \<and> snd (init (mock_world (env_key ''from-env'') 200 \<lparr>status_code = 200, text' = [], json = Inr (PyList [])\<rparr>)
        ''gpt2'' 512 ''auto'' None)
     = Inr \<lparr>api_key = ''from-env'', tokenizer_or_token_counter = ''gpt2'',
            chunk_size = 512, language = ''auto''\<rparr>
   \<and> snd (init (mock_world (env_key ''from-env'') 200 \<lparr>status_code = 200, text' = [], json = Inr (PyList [])\<rparr>)
        ''gpt2'' 512 ''auto'' (Some []))
     = Inr \<lparr>api_key = ''from-env'', tokenizer_or_token_counter = ''gpt2'',
            chunk_size = 512, language = ''auto''\<rparr>
   \<and> init (mock_world env_none 200 \<lparr>status_code = 200, text' = [], json = Inr (PyList [])\<rparr>)
        ''gpt2'' 512 ''auto'' None
     = (mock_world env_none 200 \<lparr>status_code = 200, text' = [], json = Inr (PyList [])\<rparr>,
        Inl (ValueError
          (''No API key provided. Please set the CHONKIE_API_KEY environment variable''
           @ '' or pass an API key to the CodeChunker constructor.'')))
   \<and> init (mock_world (env_key []) 200 \<lparr>status_code = 200, text' = [], json = Inr (PyList [])\<rparr>)
        ''gpt2'' 512 ''auto'' (Some [])
     = (mock_world (env_key []) 200 \<lparr>status_code = 200, text' = [], json = Inr (PyList [])\<rparr>,
        Inl (ValueError
          (''No API key provided. Please set the CHONKIE_API_KEY environment variable''
           @ '' or pass an API key to the CodeChunker constructor.'')))"
  using init_api_key_resolution [of "Some ''secret''" "''secret''" 512
          "mock_world (env_key ''from-env'') 200 \<lparr>status_code = 200, text' = [], json = Inr (PyList [])\<rparr>"
          "\<lparr>status_code = 200, text' = [], json = Inr PyNone\<rparr>" "''gpt2''" "''auto''" "''from-env''"]
        init_api_key_resolution [of None "''secret''" 512
          "mock_world (env_key ''from-env'') 200 \<lparr>status_code = 200, text' = [], json = Inr (PyList [])\<rparr>"
          "\<lparr>status_code = 200, text' = [], json = Inr PyNone\<rparr>" "''gpt2''" "''auto''" "''from-env''"]
        init_api_key_resolution [of "Some []" "''secret''" 512
          "mock_world (env_key ''from-env'') 200 \<lparr>status_code = 200, text' = [], json = Inr (PyList [])\<rparr>"
          "\<lparr>status_code = 200, text' = [], json = Inr PyNone\<rparr>" "''gpt2''" "''auto''" "''from-env''"]
        init_api_key_resolution [of None "''secret''" 512
          "mock_world env_none 200 \<lparr>status_code = 200, text' = [], json = Inr (PyList [])\<rparr>"
          "\<lparr>status_code = 200, text' = [], json = Inr PyNone\<rparr>" "''gpt2''" "''auto''" "''from-env''"]
        init_api_key_resolution [of "Some []" "''secret''" 512
          "mock_world (env_key []) 200 \<lparr>status_code = 200, text' = [], json = Inr (PyList [])\<rparr>"
          "\<lparr>status_code = 200, text' = [], json = Inr PyNone\<rparr>" "''gpt2''" "''auto''" "''from-env''"]
  by (simp add: mock_world_def env_none_def env_key_def)

text \<open>
  C5. When the configuration is valid and the GET to the service root is answered with a
  status other than 200, construction raises \<^verbatim>\<open>ValueError("Oh no! You caught Chonkie at a
  bad time. ...")\<close>, the source's form of the service-unavailable error, and the only
  request it has sent is that GET: no request to the chunk endpoint. When the answer has
  status 200, construction returns the client holding the resolved key and the three
  arguments.
\<close>

theorem init_probe_status:
  "((arg = Some k \<or> (arg = None \<or> arg = Some []) \<and> environ w ''CHONKIE_API_KEY'' = Some k)
      \<and> k \<noteq> [] \<and> 0 < cs
      \<and> server w (sent w) (GET ''https://api.chonkie.ai/'') = Inr r \<and> status_code r \<noteq> 200 \<longrightarrow>
      init w tok cs lang arg =
        (w\<lparr>sent := sent w @ [GET ''https://api.chonkie.ai/'']\<rparr>,
         Inl (ValueError
           (''Oh no! You caught Chonkie at a bad time. It seems to be down right now.''
            @ '' Please try again in a short while.''
            @ '' If the issue persists, please contact support at support@chonkie.ai or raise an issue on GitHub.''))))
   \<and> ((arg = Some k \<or> (arg = None \<or> arg = Some []) \<and> environ w ''CHONKIE_API_KEY'' = Some k)
      \<and> k \<noteq> [] \<and> 0 < cs
      \<and> server w (sent w) (GET ''https://api.chonkie.ai/'') = Inr r \<and> status_code r = 200 \<longrightarrow>
      init w tok cs lang arg =
        (w\<lparr>sent := sent w @ [GET ''https://api.chonkie.ai/'']\<rparr>,
         Inr \<lparr>api_key = k, tokenizer_or_token_counter = tok, chunk_size = cs, language = lang\<rparr>))"
proof (intro conjI impI)
  assume h: "(arg = Some k \<or> (arg = None \<or> arg = Some []) \<and> environ w ''CHONKIE_API_KEY'' = Some k)
      \<and> k \<noteq> [] \<and> 0 < cs
      \<and> server w (sent w) (GET ''https://api.chonkie.ai/'') = Inr r \<and> status_code r \<noteq> 200"
  then have "py_or arg (environ w ''CHONKIE_API_KEY'') = Some k"
    by (intro py_or_resolves) simp
  with h show "init w tok cs lang arg =
        (w\<lparr>sent := sent w @ [GET ''https://api.chonkie.ai/'']\<rparr>,
         Inl (ValueError
           (''Oh no! You caught Chonkie at a bad time. It seems to be down right now.''
            @ '' Please try again in a short while.''
            @ '' If the issue persists, please contact support at support@chonkie.ai or raise an issue on GitHub.'')))"
    using init_probe [of arg w k cs tok lang] by (simp add: BASE_URL_def down_msg_def)
next
  assume h: "(arg = Some k \<or> (arg = None \<or> arg = Some []) \<and> environ w ''CHONKIE_API_KEY'' = Some k)
      \<and> k \<noteq> [] \<and> 0 < cs
      \<and> server w (sent w) (GET ''https://api.chonkie.ai/'') = Inr r \<and> status_code r = 200"
  then have "py_or arg (environ w ''CHONKIE_API_KEY'') = Some k"
    by (intro py_or_resolves) simp
  with h show "init w tok cs lang arg =
        (w\<lparr>sent := sent w @ [GET ''https://api.chonkie.ai/'']\<rparr>,
         Inr \<lparr>api_key = k, tokenizer_or_token_counter = tok, chunk_size = cs, language = lang\<rparr>)"
    using init_probe [of arg w k cs tok lang] by (simp add: BASE_URL_def)
qed

theorem init_probe_status_witness:
  "init (mock_world env_none 503 \<lparr>status_code = 200, text' = [], json = Inr (PyList [])\<rparr>)
        ''gpt2'' 512 ''python'' (Some ''secret'')
     = ((mock_world env_none 503 \<lparr>status_code = 200, text' = [], json = Inr (PyList [])\<rparr>)
          \<lparr>sent := [GET ''https://api.chonkie.ai/'']\<rparr>,
        Inl (ValueError
           (''Oh no! You caught Chonkie at a bad time. It seems to be down right now.''
            @ '' Please try again in a short while.''
            @ '' If the issue persists, please contact support at support@chonkie.ai or raise an issue on GitHub.'')))
   \<and> init (mock_world env_none 200 \<lparr>status_code = 200, text' = [], json = Inr (PyList [])\<rparr>)
        ''gpt2'' 512 ''python'' (Some ''secret'')
     = ((mock_world env_none 200 \<lparr>status_code = 200, text' = [], json = Inr (PyList [])\<rparr>)
          \<lparr>sent := [GET ''https://api.chonkie.ai/'']\<rparr>,
        Inr \<lparr>api_key = ''secret'', tokenizer_or_token_counter = ''gpt2'',
              chunk_size = 512, language = ''python''\<rparr>)"
  using init_probe_status [of "Some ''secret''" "''secret''"
          "mock_world env_none 503 \<lparr>status_code = 200, text' = [], json = Inr (PyList [])\<rparr>"
          512 "\<lparr>status_code = 503, text' = [], json = Inr PyNone\<rparr>" "''gpt2''" "''python''"]
        init_probe_status [of "Some ''secret''" "''secret''"
          "mock_world env_none 200 \<lparr>status_code = 200, text' = [], json = Inr (PyList [])\<rparr>"
          512 "\<lparr>status_code = 200, text' = [], json = Inr PyNone\<rparr>" "''gpt2''" "''python''"]
  by (simp add: mock_world_def env_none_def)

text \<open>
  C10. The constructor checks the API key first, then the chunk size, and only then sends
  the probe. With no key it raises the missing-key error and sends nothing, whatever the
  chunk size is (so also when the chunk size is zero or less); with a key and a chunk size
  of zero or less it raises the chunk-size error and sends nothing; with both valid it
  sends exactly the GET to the service root. Conversely, whenever construction has sent
  anything, a key was present and the chunk size was above zero.
\<close>

theorem init_checks_before_probe:
  "((arg = None \<or> arg = Some [])
      \<and> (environ w ''CHONKIE_API_KEY'' = None \<or> environ w ''CHONKIE_API_KEY'' = Some []) \<longrightarrow>
      init w tok cs lang arg = (w, Inl (ValueError no_api_key_msg)))
   \<and> ((arg = Some k \<or> (arg = None \<or> arg = Some []) \<and> environ w ''CHONKIE_API_KEY'' = Some k)
      \<and> k \<noteq> [] \<and> cs \<le> 0 \<longrightarrow>
      init w tok cs lang arg = (w, Inl (ValueError chunk_size_msg)))
   \<and> ((arg = Some k \<or> (arg = None \<or> arg = Some []) \<and> environ w ''CHONKIE_API_KEY'' = Some k)
      \<and> k \<noteq> [] \<and> 0 < cs \<longrightarrow>
      sent (fst (init w tok cs lang arg)) = sent w @ [GET ''https://api.chonkie.ai/''])
   \<and> (sent (fst (init w tok cs lang arg)) \<noteq> sent w \<longrightarrow>
      (\<exists>key. (arg = Some key \<or>
               (arg = None \<or> arg = Some []) \<and> environ w ''CHONKIE_API_KEY'' = Some key)
             \<and> key \<noteq> []) \<and> 0 < cs)"
proof (intro conjI impI)
  assume "(arg = None \<or> arg = Some [])
      \<and> (environ w ''CHONKIE_API_KEY'' = None \<or> environ w ''CHONKIE_API_KEY'' = Some [])"
  then have "\<not> truthy arg \<and> \<not> truthy (environ w ''CHONKIE_API_KEY'')"
    by (rule py_or_missing)
  then show "init w tok cs lang arg = (w, Inl (ValueError no_api_key_msg))"
    using init_missing_key [of arg w tok cs lang] by simp
next
  assume h: "(arg = Some k \<or> (arg = None \<or> arg = Some []) \<and> environ w ''CHONKIE_API_KEY'' = Some k)
      \<and> k \<noteq> [] \<and> cs \<le> 0"
  then have "py_or arg (environ w ''CHONKIE_API_KEY'') = Some k"
    by (intro py_or_resolves) simp
  with h show "init w tok cs lang arg = (w, Inl (ValueError chunk_size_msg))"
    using init_bad_chunk_size [of arg w k cs tok lang] by simp
next
  assume h: "(arg = Some k \<or> (arg = None \<or> arg = Some []) \<and> environ w ''CHONKIE_API_KEY'' = Some k)
      \<and> k \<noteq> [] \<and> 0 < cs"
  then have "py_or arg (environ w ''CHONKIE_API_KEY'') = Some k"
    by (intro py_or_resolves) simp
  with h show "sent (fst (init w tok cs lang arg)) = sent w @ [GET ''https://api.chonkie.ai/'']"
    using init_probe [of arg w k cs tok lang] by (simp add: BASE_URL_def)
next
  assume changed: "sent (fst (init w tok cs lang arg)) \<noteq> sent w"
  show "\<exists>key. (arg = Some key \<or>
               (arg = None \<or> arg = Some []) \<and> environ w ''CHONKIE_API_KEY'' = Some key)
             \<and> key \<noteq> []"
  proof (rule ccontr)
    assume "\<not> (\<exists>key. (arg = Some key \<or>
               (arg = None \<or> arg = Some []) \<and> environ w ''CHONKIE_API_KEY'' = Some key)
             \<and> key \<noteq> [])"
    then have "\<not> truthy arg \<and> \<not> truthy (environ w ''CHONKIE_API_KEY'')"
      by (cases arg; cases "environ w ''CHONKIE_API_KEY''") auto
    then have "init w tok cs lang arg = (w, Inl (ValueError no_api_key_msg))"
      using init_missing_key [of arg w tok cs lang] by simp
    with changed show False by simp
  qed
  show "0 < cs"
  proof (rule ccontr)
    assume "\<not> 0 < cs"
    then have "fst (init w tok cs lang arg) = w"
      by (simp add: init_def split: option.splits)
    with changed show False by simp
  qed
qed

theorem init_checks_before_probe_witness:
  "init (mock_world env_none 200 \<lparr>status_code = 200, text' = [], json = Inr (PyList [])\<rparr>)
        ''gpt2'' 0 ''auto'' None
     = (mock_world env_none 200 \<lparr>status_code = 200, text' = [], json = Inr (PyList [])\<rparr>,
        Inl (ValueError no_api_key_msg))
   \<and> init (mock_world env_none 200 \<lparr>status_code = 200, text' = [], json = Inr (PyList [])\<rparr>)
        ''gpt2'' 0 ''auto'' (Some ''secret'')
     = (mock_world env_none 200 \<lparr>status_code = 200, text' = [], json = Inr (PyList [])\<rparr>,
        Inl (ValueError chunk_size_msg))
   \<and> sent (fst (init (mock_world env_none 200 \<lparr>status_code = 200, text' = [], json = Inr (PyList [])\<rparr>)
        ''gpt2'' 512 ''auto'' (Some ''secret'')))
     = [GET ''https://api.chonkie.ai/'']"
  using init_checks_before_probe [of None
          "mock_world env_none 200 \<lparr>status_code = 200, text' = [], json = Inr (PyList [])\<rparr>"
          "''gpt2''" 0 "''auto''" "''secret''"]
        init_checks_before_probe [of "Some ''secret''"
          "mock_world env_none 200 \<lparr>status_code = 200, text' = [], json = Inr (PyList [])\<rparr>"
          "''gpt2''" 0 "''auto''" "''secret''"]
        init_checks_before_probe [of "Some ''secret''"
          "mock_world env_none 200 \<lparr>status_code = 200, text' = [], json = Inr (PyList [])\<rparr>"
          "''gpt2''" 512 "''auto''" "''secret''"]
  by (simp add: mock_world_def env_none_def)

subsection \<open>The response to a chunk request\<close>

lemma chunk_other_status:
  "server w (sent w) (POST chunk_url (payload self txt) (headers self)) = Inr r \<Longrightarrow>
   status_code r \<noteq> 200 \<Longrightarrow>
   chunk from_dict self w txt =
     (self, w\<lparr>sent := sent w @ [POST chunk_url (payload self txt) (headers self)]\<rparr>,
      Inl (api_error r))"
  by (simp add: chunk_def requests_post_def send_def)

lemma chunk_ok_status:
  "server w (sent w) (POST chunk_url (payload self txt) (headers self)) = Inr r \<Longrightarrow>
   status_code r = 200 \<Longrightarrow>
   chunk from_dict self w txt =
     (self, w\<lparr>sent := sent w @ [POST chunk_url (payload self txt) (headers self)]\<rparr>,
      case parse_response from_dict txt r of
        Inl error \<Rightarrow> Inl (parse_error error)
      | Inr result \<Rightarrow> Inr result)"
  by (simp add: chunk_def requests_post_def send_def split: sum.splits)

lemma str_int_500: "str_int 500 = ''500''"
  by code_simp

text \<open>
  C6. When the POST is answered with a status other than 200, \<^verbatim>\<open>chunk\<close> raises
  \<^verbatim>\<open>ValueError("Error from the Chonkie API: <status> <body>")\<close>, the source's form of
  the remote-request error: the message holds the status code in decimal and the body text
  as received. Nothing is returned, and the call has sent that one POST and nothing else,
  so there is no retry. For status 500 and body \<^verbatim>\<open>server error\<close> the message is
  \<^verbatim>\<open>Error from the Chonkie API: 500 server error\<close>.
\<close>

theorem chunk_api_error:
  "server w (sent w) (POST chunk_url (payload self txt) (headers self)) = Inr r
   \<and> status_code r \<noteq> 200 \<longrightarrow>
   snd (snd (chunk from_dict self w txt)) =
     Inl (ValueError (''Error from the Chonkie API: '' @ str_int (status_code r)
                      @ '' '' @ text' r))
   \<and> sent (fst (snd (chunk from_dict self w txt))) =
       sent w @ [POST chunk_url (payload self txt) (headers self)]"
  using chunk_other_status [of w self "txt" r from_dict] by (simp add: api_error_def)

theorem chunk_api_error_witness:
  "snd (snd (chunk sample_from_dict sample_client
       (mock_world env_none 200 \<lparr>status_code = 500, text' = ''server error'', json = Inr PyNone\<rparr>)
       (Str ''def f(): pass'')))
     = Inl (ValueError ''Error from the Chonkie API: 500 server error'')
   \<and> sent (fst (snd (chunk sample_from_dict sample_client
       (mock_world env_none 200 \<lparr>status_code = 500, text' = ''server error'', json = Inr PyNone\<rparr>)
       (Str ''def f(): pass''))))
     = [POST chunk_url (payload sample_client (Str ''def f(): pass'')) (headers sample_client)]"
  using chunk_api_error [of
       "mock_world env_none 200 \<lparr>status_code = 500, text' = ''server error'', json = Inr PyNone\<rparr>"
       sample_client "Str ''def f(): pass''"
       "\<lparr>status_code = 500, text' = ''server error'', json = Inr PyNone\<rparr>" sample_from_dict]
  by (simp add: mock_world_def str_int_500)

subsection \<open>The loops over the decoded body\<close>

text \<open>
  The inner loop returns exactly when \<^verbatim>\<open>from_dict\<close> returns on every element, and then it
  returns the chunks in the order of the elements; otherwise it raises what \<^verbatim>\<open>from_dict\<close>
  raised on the first element that fails. The outer loop does the same row by row.
\<close>

lemma chunk_loop_Inr_iff:
  "chunk_loop fd acc xs = Inr r \<longleftrightarrow> (\<exists>cs. map fd xs = map Inr cs \<and> r = acc @ cs)"
proof (induction xs arbitrary: acc)
  case Nil
  then show ?case by auto
next
  case (Cons x xs)
  show ?case
  proof (cases "fd x")
    case (Inl e)
    then show ?thesis by (auto simp: Cons_eq_map_conv)
  next
    case (Inr c)
    have "chunk_loop fd acc (x # xs) = Inr r \<longleftrightarrow>
          (\<exists>cs. map fd xs = map Inr cs \<and> r = (acc @ [c]) @ cs)"
      using Inr Cons.IH [of "acc @ [c]"] by simp
    also have "\<dots> \<longleftrightarrow> (\<exists>cs. map fd (x # xs) = map Inr cs \<and> r = acc @ cs)"
      using Inr by (auto simp: Cons_eq_map_conv)
    finally show ?thesis .
  qed
qed

lemma chunk_loop_first_failure:
  "map fd pre = map Inr cs \<Longrightarrow> fd x = Inl e \<Longrightarrow> chunk_loop fd acc (pre @ x # post) = Inl e"
proof (induction pre arbitrary: acc cs)
  case Nil
  then show ?case by simp
next
  case (Cons p pre)
  then obtain c cs' where "fd p = Inr c" "map fd pre = map Inr cs'"
    by (auto simp: Cons_eq_map_conv)
  with Cons show ?case by simp
qed

lemma chunk_loop_Inl_cause:
  "chunk_loop fd acc xs = Inl e \<Longrightarrow> \<exists>x\<in>set xs. fd x = Inl e"
  by (induction xs arbitrary: acc) (auto split: sum.splits)

lemma batch_loop_Inr_iff:
  "batch_loop fd acc rows = Inr r \<longleftrightarrow>
   (\<exists>css. list_all2 (\<lambda>row cs. \<exists>items. py_iter row = Inr items \<and> map fd items = map Inr cs)
            rows css \<and> r = acc @ css)"
proof (induction rows arbitrary: acc)
  case Nil
  then show ?case by auto
next
  case (Cons row rows)
  show ?case
  proof (cases "py_iter row")
    case (Inl e)
    then show ?thesis by (auto simp: list_all2_Cons1)
  next
    case items: (Inr items)
    show ?thesis
    proof (cases "chunk_loop fd [] items")
      case (Inl e)
      then have "\<not> (\<exists>cs. map fd items = map Inr cs)"
        using chunk_loop_Inr_iff [of fd "[]" items] by auto
      with items Inl show ?thesis by (auto simp: list_all2_Cons1)
    next
      case (Inr cur)
      then have cur: "map fd items = map Inr cur"
        using chunk_loop_Inr_iff [of fd "[]" items cur] by auto
      have uniq: "cs = cur" if "map fd items = map Inr cs" for cs
        using that cur by simp
      have "batch_loop fd acc (row # rows) = Inr r \<longleftrightarrow>
            (\<exists>css. list_all2 (\<lambda>row cs. \<exists>items. py_iter row = Inr items \<and> map fd items = map Inr cs)
               rows css \<and> r = (acc @ [cur]) @ css)"
        using items Inr Cons.IH [of "acc @ [cur]"] by simp
      also have "\<dots> \<longleftrightarrow>
            (\<exists>css. list_all2 (\<lambda>row cs. \<exists>items. py_iter row = Inr items \<and> map fd items = map Inr cs)
               (row # rows) css \<and> r = acc @ css)"
        using items cur uniq by (auto simp: list_all2_Cons1)
      finally show ?thesis .
    qed
  qed
qed

lemma batch_loop_first_failure:
  "\<forall>p\<in>set pre. \<exists>items cs. py_iter p = Inr items \<and> map fd items = map Inr cs \<Longrightarrow>
   py_iter row = Inl e \<or>
     (\<exists>ipre x ipost cs. py_iter row = Inr (ipre @ x # ipost) \<and> map fd ipre = map Inr cs
        \<and> fd x = Inl e) \<Longrightarrow>
   batch_loop fd acc (pre @ row # post) = Inl e"
proof (induction pre arbitrary: acc)
  case Nil
  then show ?case by (auto simp: chunk_loop_first_failure)
next
  case (Cons p pre)
  from Cons.prems(1) obtain items cs where p: "py_iter p = Inr items" "map fd items = map Inr cs"
    by auto
  then have "chunk_loop fd [] items = Inr cs"
    using chunk_loop_Inr_iff [of fd "[]" items cs] by auto
  with p Cons show ?case by simp
qed

lemma batch_loop_Inl_cause:
  "batch_loop fd acc rows = Inl e \<Longrightarrow>
   \<exists>row\<in>set rows. py_iter row = Inl e \<or>
      (\<exists>items. py_iter row = Inr items \<and> (\<exists>x\<in>set items. fd x = Inl e))"
proof (induction rows arbitrary: acc)
  case Nil
  then show ?case by simp
next
  case (Cons row rows)
  then show ?case
    by (auto split: sum.splits dest: chunk_loop_Inl_cause)
qed

lemma chunk_loop_nil_iff:
  "chunk_loop fd [] xs = Inr cs \<longleftrightarrow> map fd xs = map Inr cs"
proof -
  have "inj (Inr :: 'b \<Rightarrow> 'a + 'b)" by (simp add: inj_def)
  then show ?thesis
    using chunk_loop_Inr_iff [of fd "[]" xs cs] by auto
qed

lemma batch_loop_nil_iff:
  "batch_loop fd [] rows = Inr css \<longleftrightarrow>
   length css = length rows
   \<and> (\<forall>i<length rows. \<exists>items. py_iter (rows ! i) = Inr items
         \<and> map fd items = map Inr (css ! i))"
  using batch_loop_Inr_iff [of fd "[]" rows css]
  by (auto simp: list_all2_conv_all_nth)

lemma parse_response_Str_Inr_iff:
  "parse_response fd (Str s) r = Inr result \<longleftrightarrow>
   (\<exists>body items cs. json r = Inr body \<and> py_iter body = Inr items
      \<and> map fd items = map Inr cs \<and> result = Flat cs)"
proof (cases "json r")
  case (Inl e)
  then show ?thesis by (simp add: parse_response_def)
next
  case body: (Inr body)
  show ?thesis
  proof (cases "py_iter body")
    case (Inl e)
    with body show ?thesis by (simp add: parse_response_def)
  next
    case items: (Inr items)
    have "parse_response fd (Str s) r = Inr result \<longleftrightarrow>
          (\<exists>cs. chunk_loop fd [] items = Inr cs \<and> result = Flat cs)"
      using body items by (auto simp: parse_response_def split: sum.splits)
    also have "\<dots> \<longleftrightarrow> (\<exists>cs. map fd items = map Inr cs \<and> result = Flat cs)"
      by (simp add: chunk_loop_nil_iff)
    finally show ?thesis using body items by simp
  qed
qed

lemma parse_response_StrList_Inr_iff:
  "parse_response fd (StrList ss) r = Inr result \<longleftrightarrow>
   (\<exists>body rows css. json r = Inr body \<and> py_iter body = Inr rows
      \<and> length css = length rows
      \<and> (\<forall>i<length rows. \<exists>items. py_iter (rows ! i) = Inr items
            \<and> map fd items = map Inr (css ! i))
      \<and> result = Nested css)"
proof (cases "json r")
  case (Inl e)
  then show ?thesis by (simp add: parse_response_def)
next
  case body: (Inr body)
  show ?thesis
  proof (cases "py_iter body")
    case (Inl e)
    with body show ?thesis by (simp add: parse_response_def)
  next
    case rows: (Inr rows)
    have "parse_response fd (StrList ss) r = Inr result \<longleftrightarrow>
          (\<exists>css. batch_loop fd [] rows = Inr css \<and> result = Nested css)"
      using body rows by (auto simp: parse_response_def split: sum.splits)
    also have "\<dots> \<longleftrightarrow>
          (\<exists>css. length css = length rows
             \<and> (\<forall>i<length rows. \<exists>items. py_iter (rows ! i) = Inr items
                   \<and> map fd items = map Inr (css ! i))
             \<and> result = Nested css)"
      by (simp add: batch_loop_nil_iff)
    finally show ?thesis using body rows by simp
  qed
qed

lemma parse_response_json_error:
  "json r = Inl e \<Longrightarrow> parse_response fd t r = Inl e"
  by (cases t) (simp_all add: parse_response_def)

lemma parse_response_iter_error:
  "json r = Inr body \<Longrightarrow> py_iter body = Inl e \<Longrightarrow> parse_response fd t r = Inl e"
  by (cases t) (simp_all add: parse_response_def)

lemma parse_response_Str_element_error:
  "json r = Inr body \<Longrightarrow> py_iter body = Inr (pre @ x # post) \<Longrightarrow>
   map fd pre = map Inr cs \<Longrightarrow> fd x = Inl e \<Longrightarrow>
   parse_response fd (Str s) r = Inl e"
  by (simp add: parse_response_def chunk_loop_first_failure)

lemma parse_response_StrList_row_error:
  "json r = Inr body \<Longrightarrow> py_iter body = Inr (rpre @ row # rpost) \<Longrightarrow>
   \<forall>p\<in>set rpre. \<exists>items cs. py_iter p = Inr items \<and> map fd items = map Inr cs \<Longrightarrow>
   py_iter row = Inl e \<or>
     (\<exists>ipre x ipost cs. py_iter row = Inr (ipre @ x # ipost) \<and> map fd ipre = map Inr cs
        \<and> fd x = Inl e) \<Longrightarrow>
   parse_response fd (StrList ss) r = Inl e"
  by (simp add: parse_response_def batch_loop_first_failure)

lemma chunk_Inr_response:
  "snd (snd (chunk fd self w t)) = Inr result \<Longrightarrow>
   \<exists>r. server w (sent w) (POST chunk_url (payload self t) (headers self)) = Inr r
      \<and> status_code r = 200 \<and> parse_response fd t r = Inr result"
  by (auto simp: chunk_def requests_post_def send_def split: sum.splits if_splits)

lemma chunk_eval:
  "snd (snd (chunk fd self (mock_world env st r) t)) =
     (if status_code r \<noteq> 200 then Inl (api_error r)
      else case parse_response fd t r of
             Inl error \<Rightarrow> Inl (parse_error error)
           | Inr result \<Rightarrow> Inr result)"
  by (simp add: chunk_def requests_post_def send_def mock_world_def split: sum.splits)

lemma chunk_ok_outcome:
  "server w (sent w) (POST chunk_url (payload self t) (headers self)) = Inr r \<Longrightarrow>
   status_code r = 200 \<Longrightarrow>
   snd (snd (chunk fd self w t)) =
     (case parse_response fd t r of
        Inl error \<Rightarrow> Inl (parse_error error)
      | Inr result \<Rightarrow> Inr result)"
  using chunk_ok_status [of w self t r fd] by simp

subsection \<open>The shape of the result\<close>

text \<open>
  C1, as the code has it. When \<^verbatim>\<open>chunk\<close> returns, the POST was answered with status 200
  and a body that decoded. For a single string the result is a flat list: one chunk for
  each element the body iterates over (for an array, its elements), in that order, each the
  value of \<^verbatim>\<open>CodeChunk.from_dict\<close> on that element. For a list of strings the result is
  a list of lists with one inner list for each element of the body, in that order, and
  inner list \<open>i\<close> holds the chunks of element \<open>i\<close> of the body in their order. The length
  of the outer list is the number of elements of the body; the number of input strings
  plays no part in it.
\<close>

theorem chunk_result_shape:
  "(snd (snd (chunk fd self w (Str s))) = Inr result \<longrightarrow>
      (\<exists>r body items cs.
         server w (sent w) (POST chunk_url (payload self (Str s)) (headers self)) = Inr r
         \<and> status_code r = 200 \<and> json r = Inr body \<and> py_iter body = Inr items
         \<and> result = Flat cs \<and> map fd items = map Inr cs))
   \<and> (snd (snd (chunk fd self w (StrList ss))) = Inr result \<longrightarrow>
      (\<exists>r body rows css.
         server w (sent w) (POST chunk_url (payload self (StrList ss)) (headers self)) = Inr r
         \<and> status_code r = 200 \<and> json r = Inr body \<and> py_iter body = Inr rows
         \<and> result = Nested css \<and> length css = length rows
         \<and> (\<forall>i<length rows. \<exists>items. py_iter (rows ! i) = Inr items
               \<and> map fd items = map Inr (css ! i))))
   \<and> py_iter (PyList elems) = Inr elems"
proof (intro conjI impI)
  assume "snd (snd (chunk fd self w (Str s))) = Inr result"
  then obtain r where
    r: "server w (sent w) (POST chunk_url (payload self (Str s)) (headers self)) = Inr r"
       "status_code r = 200" "parse_response fd (Str s) r = Inr result"
    using chunk_Inr_response by blast
  from r(3) obtain body items cs where
    "json r = Inr body" "py_iter body = Inr items" "map fd items = map Inr cs" "result = Flat cs"
    unfolding parse_response_Str_Inr_iff by blast
  with r(1,2) show "\<exists>r body items cs.
         server w (sent w) (POST chunk_url (payload self (Str s)) (headers self)) = Inr r
         \<and> status_code r = 200 \<and> json r = Inr body \<and> py_iter body = Inr items
         \<and> result = Flat cs \<and> map fd items = map Inr cs"
    by blast
next
  assume "snd (snd (chunk fd self w (StrList ss))) = Inr result"
  then obtain r where
    r: "server w (sent w) (POST chunk_url (payload self (StrList ss)) (headers self)) = Inr r"
       "status_code r = 200" "parse_response fd (StrList ss) r = Inr result"
    using chunk_Inr_response by blast
  from r(3) obtain body rows css where
    "json r = Inr body" "py_iter body = Inr rows" "length css = length rows"
    "\<forall>i<length rows. \<exists>items. py_iter (rows ! i) = Inr items \<and> map fd items = map Inr (css ! i)"
    "result = Nested css"
    unfolding parse_response_StrList_Inr_iff by blast
  with r(1,2) show "\<exists>r body rows css.
         server w (sent w) (POST chunk_url (payload self (StrList ss)) (headers self)) = Inr r
         \<and> status_code r = 200 \<and> json r = Inr body \<and> py_iter body = Inr rows
         \<and> result = Nested css \<and> length css = length rows
         \<and> (\<forall>i<length rows. \<exists>items. py_iter (rows ! i) = Inr items
               \<and> map fd items = map Inr (css ! i))"
    by blast
next
  show "py_iter (PyList elems) = Inr elems" by simp
qed

theorem chunk_result_shape_witness:
  "snd (snd (chunk sample_from_dict sample_client
       (mock_world env_none 200
          \<lparr>status_code = 200, text' = [],
           json = Inr (PyList [sample_chunk ''def f():'' 3, sample_chunk ''pass'' 1])\<rparr>)
       (Str ''def f(): pass'')))
     = Inr (Flat [(''def f():'', 3), (''pass'', 1)])
   \<and> snd (snd (chunk sample_from_dict sample_client
       (mock_world env_none 200
          \<lparr>status_code = 200, text' = [],
           json = Inr (PyList [PyList [sample_chunk ''a = 1'' 3],
                               PyList [sample_chunk ''b'' 1, sample_chunk ''= 2'' 2]])\<rparr>)
       (StrList [''a = 1'', ''b = 2''])))
     = Inr (Nested [[(''a = 1'', 3)], [(''b'', 1), (''= 2'', 2)]])"
  using chunk_result_shape [of sample_from_dict sample_client
       "mock_world env_none 200
          \<lparr>status_code = 200, text' = [],
           json = Inr (PyList [sample_chunk ''def f():'' 3, sample_chunk ''pass'' 1])\<rparr>"
       "''def f(): pass''" "Flat [(''def f():'', 3), (''pass'', 1)]" "[]" "[]"]
     chunk_result_shape [of sample_from_dict sample_client
       "mock_world env_none 200
          \<lparr>status_code = 200, text' = [],
           json = Inr (PyList [PyList [sample_chunk ''a = 1'' 3],
                               PyList [sample_chunk ''b'' 1, sample_chunk ''= 2'' 2]])\<rparr>"
       "[]" "Nested [[(''a = 1'', 3)], [(''b'', 1), (''= 2'', 2)]]" "[''a = 1'', ''b = 2'']" "[]"]
  by (simp add: chunk_eval parse_response_def sample_from_dict_def sample_chunk_def)

text \<open>
  C1, as the claim states it, fails: for an input of two strings and a 200 response whose
  body is the empty array, \<^verbatim>\<open>chunk\<close> returns the empty list, whose length is not two.
\<close>

theorem chunk_batch_length_counterexample:
  "snd (snd (chunk sample_from_dict sample_client
       (mock_world env_none 200 \<lparr>status_code = 200, text' = ''[]'', json = Inr (PyList [])\<rparr>)
       (StrList [''def f(): pass'', ''x = 1''])))
     = Inr (Nested [])
   \<and> length ([] :: (string \<times> int) list list) \<noteq> length [''def f(): pass'', ''x = 1'']"
  by (simp add: chunk_eval parse_response_def)

subsection \<open>Failures while mapping the body\<close>

text \<open>
  What the \<^verbatim>\<open>except\<close> clause does. For a POST answered with status 200, an exception raised
  inside the \<^verbatim>\<open>try\<close> block is raised again as
  \<^verbatim>\<open>ValueError("Error parsing the response: <error>")\<close> with the original exception as
  its cause: when \<^verbatim>\<open>response.json()\<close> raises; when the body is a value that cannot be
  iterated over; for a single string, when \<^verbatim>\<open>from_dict\<close> raises on an element, the
  elements before it having been mapped; for a list of strings, when a row cannot be
  iterated over or \<^verbatim>\<open>from_dict\<close> raises on one of its elements, the rows before it having
  been mapped. The outcome is never partial: either such an error, or a structure with a
  chunk for every element iterated over.
\<close>

lemma chunk_parse_failure:
  "server w (sent w) (POST chunk_url (payload self t) (headers self)) = Inr r
   \<and> status_code r = 200 \<longrightarrow>
     (json r = Inl e \<longrightarrow> snd (snd (chunk fd self w t)) = Inl (parse_error e))
   \<and> (json r = Inr body \<and> py_iter body = Inl e \<longrightarrow>
        snd (snd (chunk fd self w t)) = Inl (parse_error e))
   \<and> (t = Str s \<and> json r = Inr body \<and> py_iter body = Inr (pre @ x # post)
        \<and> map fd pre = map Inr cs \<and> fd x = Inl e \<longrightarrow>
        snd (snd (chunk fd self w t)) = Inl (parse_error e))
   \<and> (t = StrList ss \<and> json r = Inr body \<and> py_iter body = Inr (rpre @ row # rpost)
        \<and> (\<forall>p\<in>set rpre. \<exists>items cs. py_iter p = Inr items \<and> map fd items = map Inr cs)
        \<and> (py_iter row = Inl e
            \<or> (\<exists>ipre y ipost ics. py_iter row = Inr (ipre @ y # ipost)
                  \<and> map fd ipre = map Inr ics \<and> fd y = Inl e)) \<longrightarrow>
        snd (snd (chunk fd self w t)) = Inl (parse_error e))
   \<and> ((\<exists>error. snd (snd (chunk fd self w t)) = Inl (parse_error error))
       \<or> (\<exists>result. snd (snd (chunk fd self w t)) = Inr result
            \<and> (case t of
                  Str _ \<Rightarrow>
                    (\<exists>b items chunks. json r = Inr b \<and> py_iter b = Inr items
                       \<and> map fd items = map Inr chunks \<and> result = Flat chunks)
                | StrList _ \<Rightarrow>
                    (\<exists>b rows css. json r = Inr b \<and> py_iter b = Inr rows
                       \<and> length css = length rows
                       \<and> (\<forall>i<length rows. \<exists>items. py_iter (rows ! i) = Inr items
                             \<and> map fd items = map Inr (css ! i))
                       \<and> result = Nested css))))
   \<and> exn_class (parse_error e) = ''ValueError''
   \<and> exn_str (parse_error e) = ''Error parsing the response: '' @ exn_str e
   \<and> exn_cause (parse_error e) = Some e"
proof (intro impI)
  assume h: "server w (sent w) (POST chunk_url (payload self t) (headers self)) = Inr r
   \<and> status_code r = 200"
  then have out: "snd (snd (chunk fd self w t)) =
     (case parse_response fd t r of
        Inl error \<Rightarrow> Inl (parse_error error)
      | Inr result \<Rightarrow> Inr result)"
    using chunk_ok_outcome [of w self t r fd] by simp
  have p1: "json r = Inl e \<longrightarrow> snd (snd (chunk fd self w t)) = Inl (parse_error e)"
    by (simp add: out parse_response_json_error)
  have p2: "json r = Inr body \<and> py_iter body = Inl e \<longrightarrow>
        snd (snd (chunk fd self w t)) = Inl (parse_error e)"
    by (simp add: out parse_response_iter_error)
  have p3: "t = Str s \<and> json r = Inr body \<and> py_iter body = Inr (pre @ x # post)
        \<and> map fd pre = map Inr cs \<and> fd x = Inl e \<longrightarrow>
        snd (snd (chunk fd self w t)) = Inl (parse_error e)"
  proof
    assume a: "t = Str s \<and> json r = Inr body \<and> py_iter body = Inr (pre @ x # post)
        \<and> map fd pre = map Inr cs \<and> fd x = Inl e"
    then have "parse_response fd (Str s) r = Inl e"
      by (intro parse_response_Str_element_error [of r body pre x post fd cs e s]) simp_all
    with a have "parse_response fd t r = Inl e" by simp
    then show "snd (snd (chunk fd self w t)) = Inl (parse_error e)"
      by (simp add: out)
  qed
  have p4: "t = StrList ss \<and> json r = Inr body \<and> py_iter body = Inr (rpre @ row # rpost)
        \<and> (\<forall>p\<in>set rpre. \<exists>items cs. py_iter p = Inr items \<and> map fd items = map Inr cs)
        \<and> (py_iter row = Inl e
            \<or> (\<exists>ipre y ipost ics. py_iter row = Inr (ipre @ y # ipost)
                  \<and> map fd ipre = map Inr ics \<and> fd y = Inl e)) \<longrightarrow>
        snd (snd (chunk fd self w t)) = Inl (parse_error e)"
  proof
    assume a: "t = StrList ss \<and> json r = Inr body \<and> py_iter body = Inr (rpre @ row # rpost)
        \<and> (\<forall>p\<in>set rpre. \<exists>items cs. py_iter p = Inr items \<and> map fd items = map Inr cs)
        \<and> (py_iter row = Inl e
            \<or> (\<exists>ipre y ipost ics. py_iter row = Inr (ipre @ y # ipost)
                  \<and> map fd ipre = map Inr ics \<and> fd y = Inl e))"
    then have "parse_response fd (StrList ss) r = Inl e"
      by (intro parse_response_StrList_row_error [of r body rpre row rpost fd e ss]) simp_all
    with a have "parse_response fd t r = Inl e" by simp
    then show "snd (snd (chunk fd self w t)) = Inl (parse_error e)"
      by (simp add: out)
  qed
  have p5: "(\<exists>error. snd (snd (chunk fd self w t)) = Inl (parse_error error))
       \<or> (\<exists>result. snd (snd (chunk fd self w t)) = Inr result
            \<and> (case t of
                  Str _ \<Rightarrow>
                    (\<exists>b items chunks. json r = Inr b \<and> py_iter b = Inr items
                       \<and> map fd items = map Inr chunks \<and> result = Flat chunks)
                | StrList _ \<Rightarrow>
                    (\<exists>b rows css. json r = Inr b \<and> py_iter b = Inr rows
                       \<and> length css = length rows
                       \<and> (\<forall>i<length rows. \<exists>items. py_iter (rows ! i) = Inr items
                             \<and> map fd items = map Inr (css ! i))
                       \<and> result = Nested css)))"
  proof (cases "parse_response fd t r")
    case (Inl error)
    then have "snd (snd (chunk fd self w t)) = Inl (parse_error error)" by (simp add: out)
    then show ?thesis by blast
  next
    case (Inr result)
    then have "snd (snd (chunk fd self w t)) = Inr result" by (simp add: out)
    moreover have "case t of
                  Str _ \<Rightarrow>
                    (\<exists>b items chunks. json r = Inr b \<and> py_iter b = Inr items
                       \<and> map fd items = map Inr chunks \<and> result = Flat chunks)
                | StrList _ \<Rightarrow>
                    (\<exists>b rows css. json r = Inr b \<and> py_iter b = Inr rows
                       \<and> length css = length rows
                       \<and> (\<forall>i<length rows. \<exists>items. py_iter (rows ! i) = Inr items
                             \<and> map fd items = map Inr (css ! i))
                       \<and> result = Nested css)"
    proof (cases t)
      case (Str s')
      with Inr show ?thesis
        using parse_response_Str_Inr_iff [of fd s' r result] by simp
    next
      case (StrList ss')
      with Inr show ?thesis
        using parse_response_StrList_Inr_iff [of fd ss' r result] by simp
    qed
    ultimately show ?thesis by blast
  qed
  have p6: "exn_class (parse_error e) = ''ValueError''
   \<and> exn_str (parse_error e) = ''Error parsing the response: '' @ exn_str e
   \<and> exn_cause (parse_error e) = Some e"
    by (simp add: parse_error_def ValueError_from_def)
  from p1 p2 p3 p4 p5 p6 show "(json r = Inl e \<longrightarrow> snd (snd (chunk fd self w t)) = Inl (parse_error e))
   \<and> (json r = Inr body \<and> py_iter body = Inl e \<longrightarrow>
        snd (snd (chunk fd self w t)) = Inl (parse_error e))
   \<and> (t = Str s \<and> json r = Inr body \<and> py_iter body = Inr (pre @ x # post)
        \<and> map fd pre = map Inr cs \<and> fd x = Inl e \<longrightarrow>
        snd (snd (chunk fd self w t)) = Inl (parse_error e))
   \<and> (t = StrList ss \<and> json r = Inr body \<and> py_iter body = Inr (rpre @ row # rpost)
        \<and> (\<forall>p\<in>set rpre. \<exists>items cs. py_iter p = Inr items \<and> map fd items = map Inr cs)
        \<and> (py_iter row = Inl e
            \<or> (\<exists>ipre y ipost ics. py_iter row = Inr (ipre @ y # ipost)
                  \<and> map fd ipre = map Inr ics \<and> fd y = Inl e)) \<longrightarrow>
        snd (snd (chunk fd self w t)) = Inl (parse_error e))
   \<and> ((\<exists>error. snd (snd (chunk fd self w t)) = Inl (parse_error error))
       \<or> (\<exists>result. snd (snd (chunk fd self w t)) = Inr result
            \<and> (case t of
                  Str _ \<Rightarrow>
                    (\<exists>b items chunks. json r = Inr b \<and> py_iter b = Inr items
                       \<and> map fd items = map Inr chunks \<and> result = Flat chunks)
                | StrList _ \<Rightarrow>
                    (\<exists>b rows css. json r = Inr b \<and> py_iter b = Inr rows
                       \<and> length css = length rows
                       \<and> (\<forall>i<length rows. \<exists>items. py_iter (rows ! i) = Inr items
                             \<and> map fd items = map Inr (css ! i))
                       \<and> result = Nested css))))
   \<and> exn_class (parse_error e) = ''ValueError''
   \<and> exn_str (parse_error e) = ''Error parsing the response: '' @ exn_str e
   \<and> exn_cause (parse_error e) = Some e"
    by (intro conjI) (rule p1, rule p2, rule p3, rule p4, rule p5, simp_all)
qed

lemma chunk_parse_failure_examples:
  "snd (snd (chunk sample_from_dict sample_client
       (mock_world env_none 200
          \<lparr>status_code = 200, text' = ''oops'',
           json = Inl (Exn ''JSONDecodeError'' ''Expecting value: line 1 column 1 (char 0)'' None)\<rparr>)
       (Str ''x = 1'')))
     = Inl (Exn ''ValueError''
              ''Error parsing the response: Expecting value: line 1 column 1 (char 0)''
              (Some (Exn ''JSONDecodeError'' ''Expecting value: line 1 column 1 (char 0)'' None)))
   \<and> snd (snd (chunk sample_from_dict sample_client
       (mock_world env_none 200
          \<lparr>status_code = 200, text' = [],
           json = Inr (PyList [sample_chunk ''x'' 1, PyDict [(''text'', PyStr ''= 1'')]])\<rparr>)
       (Str ''x = 1'')))
     = Inl (Exn ''ValueError''
              (''Error parsing the response: '' @ [CHR 0x27] @ ''token_count'' @ [CHR 0x27])
              (Some (Exn ''KeyError'' ([CHR 0x27] @ ''token_count'' @ [CHR 0x27]) None)))
   \<and> snd (snd (chunk sample_from_dict sample_client
       (mock_world env_none 200 \<lparr>status_code = 200, text' = ''5'', json = Inr (PyInt 5)\<rparr>)
       (StrList [''x = 1''])))
     = Inl (Exn ''ValueError''
              (''Error parsing the response: '' @ [CHR 0x27] @ ''int'' @ [CHR 0x27]
               @ '' object is not iterable'')
              (Some (Exn ''TypeError''
                       ([CHR 0x27] @ ''int'' @ [CHR 0x27] @ '' object is not iterable'') None)))"
  using chunk_parse_failure [where fd = sample_from_dict and self = sample_client
       and w = "mock_world env_none 200
          \<lparr>status_code = 200, text' = ''oops'',
           json = Inl (Exn ''JSONDecodeError'' ''Expecting value: line 1 column 1 (char 0)'' None)\<rparr>"
       and t = "Str ''x = 1''"
       and r = "\<lparr>status_code = 200, text' = ''oops'',
           json = Inl (Exn ''JSONDecodeError'' ''Expecting value: line 1 column 1 (char 0)'' None)\<rparr>"
       and e = "Exn ''JSONDecodeError'' ''Expecting value: line 1 column 1 (char 0)'' None"]
     chunk_parse_failure [where fd = sample_from_dict and self = sample_client
       and w = "mock_world env_none 200
          \<lparr>status_code = 200, text' = [],
           json = Inr (PyList [sample_chunk ''x'' 1, PyDict [(''text'', PyStr ''= 1'')]])\<rparr>"
       and t = "Str ''x = 1''" and s = "''x = 1''"
       and r = "\<lparr>status_code = 200, text' = [],
           json = Inr (PyList [sample_chunk ''x'' 1, PyDict [(''text'', PyStr ''= 1'')]])\<rparr>"
       and body = "PyList [sample_chunk ''x'' 1, PyDict [(''text'', PyStr ''= 1'')]]"
       and pre = "[sample_chunk ''x'' 1]" and x = "PyDict [(''text'', PyStr ''= 1'')]"
       and post = "[]" and cs = "[(''x'', 1)]"
       and e = "Exn ''KeyError'' ([CHR 0x27] @ ''token_count'' @ [CHR 0x27]) None"]
     chunk_parse_failure [where fd = sample_from_dict and self = sample_client
       and w = "mock_world env_none 200 \<lparr>status_code = 200, text' = ''5'', json = Inr (PyInt 5)\<rparr>"
       and t = "StrList [''x = 1'']"
       and r = "\<lparr>status_code = 200, text' = ''5'', json = Inr (PyInt 5)\<rparr>"
       and body = "PyInt 5"
       and e = "TypeError ([CHR 0x27] @ ''int'' @ [CHR 0x27] @ '' object is not iterable'')"]
  by (simp add: mock_world_def sample_from_dict_def sample_chunk_def parse_error_def
        ValueError_from_def TypeError_def)

text \<open>
  C7. The claim is that every 200 response whose body does not have the expected chunk
  structure (malformed JSON, missing chunk fields, a mismatch of shape) makes \<^verbatim>\<open>chunk\<close>
  raise the parse error. The docstring of \<^verbatim>\<open>chunk\<close> says the same, a \<^verbatim>\<open>ValueError\<close> when the
  API returns invalid data, and the body is declared \<^verbatim>\<open>List[Dict]\<close> for a single string
  and \<^verbatim>\<open>List[List[Dict]]\<close> for a list of strings. The code falls short of it, because the
  loops iterate over whatever the body is and an object iterates over its keys. For a
  single string and a 200 response whose body is the empty object, \<^verbatim>\<open>chunk\<close> raises
  nothing and returns the empty list; for a list of one string and a body that is an array
  holding an empty object where an array of chunks is due, it raises nothing and returns a
  list holding one empty list. \<^verbatim>\<open>from_dict\<close> is never called on either input.
\<close>

theorem chunk_shape_mismatch_not_raised:
  "snd (snd (chunk sample_from_dict sample_client
       (mock_world env_none 200 \<lparr>status_code = 200, text' = ''{}'', json = Inr (PyDict [])\<rparr>)
       (Str ''x = 1'')))
     = Inr (Flat [])
   \<and> snd (snd (chunk sample_from_dict sample_client
       (mock_world env_none 200
          \<lparr>status_code = 200, text' = ''[{}]'', json = Inr (PyList [PyDict []])\<rparr>)
       (StrList [''x = 1''])))
     = Inr (Nested [[]])"
  by (simp add: chunk_eval parse_response_def)

end
